theory Spec2Isabelle
  imports Main
begin

section \<open>Values handled by a metric\<close>

text \<open>
  The metric code of \<^verbatim>\<open>mmengine/evaluator/metric.py\<close> handles arbitrary Python objects.
  \<^verbatim>\<open>_to_cpu\<close> dispatches on them with \<^verbatim>\<open>isinstance\<close>: a \<^verbatim>\<open>torch.Tensor\<close> or a
  \<^verbatim>\<open>BaseDataElement\<close>, a list, a tuple, a dict, and everything else.

  A tensor and a data element are known here only by the device they live on and by their
  contents, which this file never inspects. \<^verbatim>\<open>isinstance\<close> also holds of the instances of
  a subclass, so a list, a tuple and a dict carry their class: the built-in one or a
  subclass, by name (a named tuple, \<^verbatim>\<open>torch.Size\<close>, \<^verbatim>\<open>OrderedDict\<close>,
  \<^verbatim>\<open>defaultdict\<close>). A mapping that is no dict (\<^verbatim>\<open>MappingProxyType\<close>, \<^verbatim>\<open>UserDict\<close>) is a
  value of its own. A dict and a mapping are the list of their items in insertion order
  (each key is held once: the keys of a well-formed dict are distinct).
\<close>

datatype device = CPU | GPU nat

datatype tensor = TensorOn (tensor_device: device) (tensor_data: nat)

datatype data_element = DataElementOn (element_device: device) (element_data: nat)

datatype atom = NoneV | BoolV bool | IntV int | StrV string | ObjV nat

datatype container = Plain | Subclass string

datatype pyval =
    Tensor tensor
  | DataElement data_element
  | PyList container "pyval list"
  | PyTuple container "pyval list"
  | PyDict container "(atom \<times> pyval) list"
  | PyMapping string "(atom \<times> pyval) list"
  | Other atom

text \<open>A dict as the code builds and returns it: the metrics, the dataset meta information.\<close>

type_synonym pydict = "(atom \<times> pyval) list"

section \<open>The world around a metric\<close>

text \<open>
  The file raises one exception itself (\<^verbatim>\<open>ValueError\<close>, in \<^verbatim>\<open>DumpResults.__init__\<close>),
  joins strings (\<^verbatim>\<open>'/'.join\<close> raises \<^verbatim>\<open>TypeError\<close> on an item that is no string) and
  indexes a list (\<^verbatim>\<open>metrics[0]\<close>). Every other exception comes out of code the file
  calls: \<^verbatim>\<open>.to\<close> of a tensor or a data element, the primitives of \<^verbatim>\<open>mmengine.dist\<close> and
  \<^verbatim>\<open>mmengine.fileio\<close>, and the \<^verbatim>\<open>compute_metrics\<close> of a subclass.
\<close>

datatype error =
    ValueError string
  | TypeError
  | IndexError
  | External string

datatype log_level = INFO | WARNING

text \<open>
  What the code reaches outside the metric instance: the logger, and the files written by
  \<^verbatim>\<open>dump\<close>. \<open>dump_raises\<close> says for which object and path the serializer fails (an object
  that cannot be pickled, a path that cannot be written); \<open>to_raises\<close> says for which
  tensor or data element the transfer to another device fails.
\<close>

record world =
  logged :: "(log_level \<times> string) list"
  files :: "string \<Rightarrow> pyval option"
  dump_raises :: "pyval \<Rightarrow> string \<Rightarrow> error option"
  to_raises :: "pyval \<Rightarrow> error option"

text \<open>
  Modelled from the spec: \<^verbatim>\<open>print_log\<close> of \<^verbatim>\<open>mmengine.logging\<close> is not part of the
  file; the spec calls it a logging sink. A call appends one record to the log.
\<close>

definition print_log :: "string \<Rightarrow> log_level \<Rightarrow> world \<Rightarrow> world" where
  "print_log msg level w = w\<lparr>logged := logged w @ [(level, msg)]\<rparr>"

text \<open>
  Modelled from the spec: \<^verbatim>\<open>dump\<close> of \<^verbatim>\<open>mmengine.fileio\<close> is not part of the file; the
  spec calls it the \<^verbatim>\<open>serialize(value, path)\<close> file-dump primitive, whose failures
  propagate. A call that does not fail leaves the object in the file at the path.
\<close>

definition dump :: "pyval \<Rightarrow> string \<Rightarrow> world \<Rightarrow> (error + unit) \<times> world" where
  "dump obj file w =
     (case dump_raises w obj file of
        Some e \<Rightarrow> (Inl e, w)
      | None \<Rightarrow> (Inr (), w\<lparr>files := (files w)(file \<mapsto> obj)\<rparr>))"

text \<open>
  Modelled from the spec: \<^verbatim>\<open>Tensor.to\<close> (torch) and \<^verbatim>\<open>BaseDataElement.to\<close>
  (\<^verbatim>\<open>mmengine.structures\<close>) are not part of the file. The spec calls their result at
  \<^verbatim>\<open>'cpu'\<close> a host-memory copy: the same contents, living on the device asked for. As
  calls into other code they may raise.
\<close>

definition tensor_to :: "world \<Rightarrow> device \<Rightarrow> tensor \<Rightarrow> error + tensor" where
  "tensor_to w dev t =
     (case to_raises w (Tensor t) of
        Some e \<Rightarrow> Inl e
      | None \<Rightarrow> Inr (TensorOn dev (tensor_data t)))"

definition data_element_to :: "world \<Rightarrow> device \<Rightarrow> data_element \<Rightarrow> error + data_element" where
  "data_element_to w dev x =
     (case to_raises w (DataElement x) of
        Some e \<Rightarrow> Inl e
      | None \<Rightarrow> Inr (DataElementOn dev (element_data x)))"

subsection \<open>Python idioms\<close>

text \<open>
  A comprehension evaluates its items in order and stops at the first one that raises.
\<close>

fun in_order :: "(error + 'a) list \<Rightarrow> error + 'a list" where
  "in_order [] = Inr []"
| "in_order (Inl e # rs) = Inl e"
| "in_order (Inr x # rs) = (case in_order rs of Inl e \<Rightarrow> Inl e | Inr xs \<Rightarrow> Inr (x # xs))"

text \<open>\<^verbatim>\<open>xs[:n]\<close>: a negative \<open>n\<close> counts from the end.\<close>

definition py_slice_upto :: "'a list \<Rightarrow> int \<Rightarrow> 'a list" where
  "py_slice_upto xs n =
     (if 0 \<le> n then take (nat n) xs else take (length xs - nat (- n)) xs)"

text \<open>The truth value of an optional string: \<^verbatim>\<open>None\<close> and \<^verbatim>\<open>''\<close> are false.\<close>

fun truthy :: "string option \<Rightarrow> bool" where
  "truthy None = False"
| "truthy (Some s) = (s \<noteq> [])"

text \<open>\<^verbatim>\<open>a or b\<close> is \<open>a\<close> when \<open>a\<close> is true, and \<open>b\<close> otherwise.\<close>

definition py_or :: "string option \<Rightarrow> string option \<Rightarrow> string option" where
  "py_or a b = (if truthy a then a else b)"

text \<open>\<^verbatim>\<open>s.endswith(suf)\<close>, and \<^verbatim>\<open>s.endswith((suf1, suf2, ...))\<close>.\<close>

definition endswith :: "string \<Rightarrow> string \<Rightarrow> bool" where
  "endswith s suf = (length suf \<le> length s \<and> drop (length s - length suf) s = suf)"

fun endswith_any :: "string \<Rightarrow> string list \<Rightarrow> bool" where
  "endswith_any s [] = False"
| "endswith_any s (suf # sufs) = (endswith s suf \<or> endswith_any s sufs)"

text \<open>\<^verbatim>\<open>'/'.join((a, k))\<close> for a string \<open>a\<close>: \<^verbatim>\<open>TypeError\<close> when \<open>k\<close> is no string.\<close>

definition slash_join :: "string \<Rightarrow> string \<Rightarrow> string" where
  "slash_join a b = a @ ''/'' @ b"

fun join_key :: "string \<Rightarrow> atom \<Rightarrow> error + atom" where
  "join_key a (StrV k) = Inr (StrV (slash_join a k))"
| "join_key a k = Inl TypeError"

subsection \<open>\<^verbatim>\<open>_to_cpu\<close>\<close>

text \<open>
  \<^verbatim>\<open>
  def _to_cpu(data):
      if isinstance(data, (Tensor, BaseDataElement)):
          return data.to('cpu')
      elif isinstance(data, list):
          return [_to_cpu(d) for d in data]
      elif isinstance(data, tuple):
          return tuple(_to_cpu(d) for d in data)
      elif isinstance(data, dict):
          return {k: _to_cpu(v) for k, v in data.items()}
      else:
          return data
  \<close>
  The list comprehension, \<^verbatim>\<open>tuple(...)\<close> and the dict comprehension build a list, a
  tuple and a dict of the built-in class, whatever the class of \<^verbatim>\<open>data\<close>.
\<close>

fun to_cpu :: "world \<Rightarrow> pyval \<Rightarrow> error + pyval" where
  "to_cpu w (Tensor t) =
     (case tensor_to w CPU t of Inl e \<Rightarrow> Inl e | Inr t' \<Rightarrow> Inr (Tensor t'))"
| "to_cpu w (DataElement x) =
     (case data_element_to w CPU x of Inl e \<Rightarrow> Inl e | Inr x' \<Rightarrow> Inr (DataElement x'))"
| "to_cpu w (PyList c ds) =
     (case in_order (map (to_cpu w) ds) of
        Inl e \<Rightarrow> Inl e
      | Inr ds' \<Rightarrow> Inr (PyList Plain ds'))"
| "to_cpu w (PyTuple c ds) =
     (case in_order (map (to_cpu w) ds) of
        Inl e \<Rightarrow> Inl e
      | Inr ds' \<Rightarrow> Inr (PyTuple Plain ds'))"
| "to_cpu w (PyDict c kvs) =
     (case in_order (map (\<lambda>(k, v). case to_cpu w v of
                                      Inl e \<Rightarrow> Inl e
                                    | Inr v' \<Rightarrow> Inr (k, v')) kvs) of
        Inl e \<Rightarrow> Inl e
      | Inr kvs' \<Rightarrow> Inr (PyDict Plain kvs'))"
| "to_cpu w (PyMapping n kvs) = Inr (PyMapping n kvs)"
| "to_cpu w (Other a) = Inr (Other a)"

subsection \<open>The primitives of \<^verbatim>\<open>mmengine.dist\<close>\<close>

text \<open>
  \<^verbatim>\<open>collect_results\<close>, \<^verbatim>\<open>is_main_process\<close> and \<^verbatim>\<open>broadcast_object_list\<close> are imported
  by the file and defined elsewhere. What they do depends on the run (how many workers there
  are, which rank this one is, what the other workers hold), so \<^verbatim>\<open>evaluate\<close> takes them as
  a parameter: whether this worker is the designated one, what the collection returns or
  raises, and what the broadcast delivers (or raises): the objects of the designated
  worker's list, by index.
\<close>

record dist =
  is_main_process :: bool
  collect_results :: "pyval list \<Rightarrow> int \<Rightarrow> string \<Rightarrow> error + pyval"
  broadcast_source :: "error + (nat \<Rightarrow> pydict option)"

text \<open>
  Modelled from the spec: \<^verbatim>\<open>broadcast_object_list\<close> is ``a
  \<^verbatim>\<open>broadcast(list_with_one_mapping)\<close> primitive that overwrites that list in place on every
  worker with the designated worker's value''. The list keeps its length; on the designated
  worker it keeps its objects.
\<close>

definition broadcast_object_list :: "dist \<Rightarrow> pydict option list \<Rightarrow> error + pydict option list" where
  "broadcast_object_list d object_list =
     (case broadcast_source d of
        Inl e \<Rightarrow> Inl e
      | Inr src \<Rightarrow>
          Inr (if is_main_process d then object_list
               else map src [0..<length object_list]))"

section \<open>\<^verbatim>\<open>BaseMetric\<close>\<close>

text \<open>
  The fields of an instance. \<open>priv_dataset_meta\<close> is \<^verbatim>\<open>self._dataset_meta\<close>.
\<close>

record metric =
  priv_dataset_meta :: "pydict option"
  collect_device :: string
  results :: "pyval list"
  prefix :: "string option"

text \<open>
  \<^verbatim>\<open>BaseMetric\<close> is abstract. What a subclass supplies and \<^verbatim>\<open>BaseMetric\<close> uses: its name
  (\<^verbatim>\<open>self.__class__.__name__\<close>), the class attribute \<^verbatim>\<open>default_prefix\<close>, and
  \<^verbatim>\<open>compute_metrics\<close>. That is a method of the instance: it is given the results, may
  read and assign every field of the instance (\<^verbatim>\<open>self.results\<close> among them), may log
  and write files, and returns a dict, as its signature says, or raises. Nothing restricts
  the keys of the dict to strings.
\<close>

record 'a metric_class =
  class_name :: string
  default_prefix :: "string option"
  compute_metrics ::
    "'a metric_scheme \<Rightarrow> pyval \<Rightarrow> world \<Rightarrow> (error + pydict) \<times> 'a metric_scheme \<times> world"

text \<open>
  \<^verbatim>\<open>
  def __init__(self, collect_device='cpu', prefix=None):
      self._dataset_meta = None
      self.collect_device = collect_device
      self.results = []
      self.prefix = prefix or self.default_prefix
      if self.prefix is None:
          print_log('The prefix is not set in metric class '
                    f'{self.__class__.__name__}.', logger='current', level=logging.WARNING)
  \<close>
\<close>

definition prefix_warning :: "'a metric_class \<Rightarrow> string" where
  "prefix_warning cls = ''The prefix is not set in metric class '' @ class_name cls @ ''.''"

definition BaseMetric_init ::
  "'a metric_class \<Rightarrow> string \<Rightarrow> string option \<Rightarrow> world \<Rightarrow> metric \<times> world" where
  "BaseMetric_init cls dev pfx w =
     (let self = \<lparr>priv_dataset_meta = None, collect_device = dev, results = [],
                  prefix = py_or pfx (default_prefix cls)\<rparr>
      in if prefix self = None then (self, print_log (prefix_warning cls) WARNING w)
         else (self, w))"

text \<open>The property \<^verbatim>\<open>dataset_meta\<close> and its setter.\<close>

definition dataset_meta :: "'a metric_scheme \<Rightarrow> pydict option" where
  "dataset_meta self = priv_dataset_meta self"

definition set_dataset_meta :: "pydict \<Rightarrow> 'a metric_scheme \<Rightarrow> 'a metric_scheme" where
  "set_dataset_meta dataset_meta' self = self\<lparr>priv_dataset_meta := Some dataset_meta'\<rparr>"

subsection \<open>\<^verbatim>\<open>evaluate\<close>\<close>

text \<open>
  \<^verbatim>\<open>
  def evaluate(self, size):
      if len(self.results) == 0:
          print_log(f'{self.__class__.__name__} got empty `self.results`. ...',
                    logger='current', level=logging.WARNING)
      results = collect_results(self.results, size, self.collect_device)
      if is_main_process():
          results = _to_cpu(results)
          _metrics = self.compute_metrics(results)
          if self.prefix:
              _metrics = {'/'.join((self.prefix, k)): v for k, v in _metrics.items()}
          metrics = [_metrics]
      else:
          metrics = [None]
      broadcast_object_list(metrics)
      self.results.clear()
      return metrics[0]
  \<close>
  The result is what the call returns or raises, the instance and the world it leaves.
  An exception leaves the instance as it was when it was raised: as
  \<^verbatim>\<open>compute_metrics\<close> left it, once that has run. \<^verbatim>\<open>self.prefix\<close> is read after
  \<^verbatim>\<open>compute_metrics\<close>, and it is a string where it is true.
\<close>

definition empty_results_warning :: "'a metric_class \<Rightarrow> string" where
  "empty_results_warning cls =
     class_name cls @ '' got empty `self.results`. Please ensure that the processed results are properly added into `self.results` in `process` method.''"

text \<open>The dict comprehension: the items in order, the first key that is no string raises.\<close>

definition prefix_keys :: "string \<Rightarrow> pydict \<Rightarrow> error + pydict" where
  "prefix_keys p raw_metrics =
     in_order (map (\<lambda>(k, v). case join_key p k of
                                Inl e \<Rightarrow> Inl e
                              | Inr k' \<Rightarrow> Inr (k', v)) raw_metrics)"

definition evaluate ::
  "dist \<Rightarrow> 'a metric_class \<Rightarrow> int \<Rightarrow> 'a metric_scheme \<Rightarrow> world
    \<Rightarrow> (error + pydict option) \<times> 'a metric_scheme \<times> world" where
  "evaluate d cls sz self w =
     (let w1 = (if length (results self) = 0
                then print_log (empty_results_warning cls) WARNING w else w)
      in case collect_results d (results self) sz (collect_device self) of
           Inl e \<Rightarrow> (Inl e, self, w1)
         | Inr res \<Rightarrow>
             (case (if is_main_process d
                    then (case to_cpu w1 res of
                            Inl e \<Rightarrow> (Inl e, self, w1)
                          | Inr res' \<Rightarrow>
                              (case compute_metrics cls self res' w1 of
                                 (Inl e, self1, w2) \<Rightarrow> (Inl e, self1, w2)
                               | (Inr raw_metrics, self1, w2) \<Rightarrow>
                                   (case (if truthy (prefix self1)
                                          then prefix_keys (the (prefix self1)) raw_metrics
                                          else Inr raw_metrics) of
                                      Inl e \<Rightarrow> (Inl e, self1, w2)
                                    | Inr named \<Rightarrow> (Inr [Some named], self1, w2))))
                    else (Inr [None], self, w1)) of
                (Inl e, self1, w2) \<Rightarrow> (Inl e, self1, w2)
              | (Inr metrics, self1, w2) \<Rightarrow>
                  (case broadcast_object_list d metrics of
                     Inl e \<Rightarrow> (Inl e, self1, w2)
                   | Inr metrics' \<Rightarrow>
                       (let self2 = self1\<lparr>results := []\<rparr>
                        in case metrics' of
                             [] \<Rightarrow> (Inl IndexError, self2, w2)
                           | m # _ \<Rightarrow> (Inr m, self2, w2)))))"

section \<open>\<^verbatim>\<open>DumpResults\<close>\<close>

record dump_results = metric +
  out_file_path :: string

text \<open>
  \<^verbatim>\<open>
  def compute_metrics(self, results):
      dump(results, self.out_file_path)
      print_log(f'Results has been saved to {self.out_file_path}.', logger='current')
      return {}
  \<close>
\<close>

definition DumpResults_compute_metrics ::
  "dump_results \<Rightarrow> pyval \<Rightarrow> world \<Rightarrow> (error + pydict) \<times> dump_results \<times> world" where
  "DumpResults_compute_metrics self res w =
     (case dump res (out_file_path self) w of
        (Inl e, w') \<Rightarrow> (Inl e, self, w')
      | (Inr _, w') \<Rightarrow>
          (Inr [], self,
           print_log (''Results has been saved to '' @ out_file_path self @ ''.'') INFO w'))"

text \<open>The class: it sets no \<^verbatim>\<open>default_prefix\<close> of its own.\<close>

definition DumpResults :: "unit dump_results_ext metric_class" where
  "DumpResults =
     \<lparr>class_name = ''DumpResults'', default_prefix = None,
      compute_metrics = DumpResults_compute_metrics\<rparr>"

text \<open>
  \<^verbatim>\<open>
  def __init__(self, out_file_path, collect_device='cpu'):
      super().__init__(collect_device=collect_device)
      if not out_file_path.endswith(('.pkl', '.pickle')):
          raise ValueError('The output file must be a pkl file.')
      self.out_file_path = out_file_path
  \<close>
\<close>

definition DumpResults_init ::
  "string \<Rightarrow> string \<Rightarrow> world \<Rightarrow> (error + dump_results) \<times> world" where
  "DumpResults_init path dev w =
     (let (self, w1) = BaseMetric_init DumpResults dev None w
      in if \<not> endswith_any path [''.pkl'', ''.pickle'']
         then (Inl (ValueError ''The output file must be a pkl file.''), w1)
         else (Inr (metric.extend self \<lparr>out_file_path = path\<rparr>), w1))"

section \<open>Runs\<close>

text \<open>
  Modelled from the spec: a single-worker run. The spec takes the only worker as the
  designated one, has the collection return the accumulator cut to the size
  (\<^verbatim>\<open>R[:size]\<close>, a list of the built-in class), and has nothing for the broadcast to
  overwrite.
\<close>

definition single_worker :: dist where
  "single_worker =
     \<lparr>is_main_process = True,
      collect_results =
        (\<lambda>result_part sz dev. Inr (PyList Plain (py_slice_upto result_part sz))),
      broadcast_source = Inr (\<lambda>i. None)\<rparr>"



section \<open>The spec's words\<close>

text \<open>
  The spec's sentence on a single-worker \<^verbatim>\<open>evaluate(size)\<close>, word for word: the value
  is \<^verbatim>\<open>compute_metrics(R[:size])\<close>, with every key prefixed by \<^verbatim>\<open>prefix + "/"\<close> when
  the prefix is set, and unprefixed when not.
\<close>

definition evaluate_spec ::
  "'a metric_class \<Rightarrow> int \<Rightarrow> 'a metric_scheme \<Rightarrow> world \<Rightarrow> error + pydict option" where
  "evaluate_spec cls sz self w =
     (case fst (compute_metrics cls self (PyList Plain (py_slice_upto (results self) sz)) w) of
        Inl e \<Rightarrow> Inl e
      | Inr m \<Rightarrow>
          (case prefix self of
             None \<Rightarrow> Inr (Some m)
           | Some p \<Rightarrow>
               (case prefix_keys p m of Inl e \<Rightarrow> Inl e | Inr named \<Rightarrow> Inr (Some named))))"

text \<open>
  The spec's sentence on the device relocation, word for word: a tensor-like value comes
  back as a host-memory copy; a list, a tuple and a mapping come back as the same container
  type with the transform applied to every element and value; anything else comes back
  unchanged.
\<close>

fun to_cpu_spec :: "pyval \<Rightarrow> pyval" where
  "to_cpu_spec (Tensor t) = Tensor (TensorOn CPU (tensor_data t))"
| "to_cpu_spec (DataElement x) = DataElement (DataElementOn CPU (element_data x))"
| "to_cpu_spec (PyList c ds) = PyList c (map to_cpu_spec ds)"
| "to_cpu_spec (PyTuple c ds) = PyTuple c (map to_cpu_spec ds)"
| "to_cpu_spec (PyDict c kvs) = PyDict c (map (\<lambda>(k, v). (k, to_cpu_spec v)) kvs)"
| "to_cpu_spec (PyMapping n kvs) = PyMapping n (map (\<lambda>(k, v). (k, to_cpu_spec v)) kvs)"
| "to_cpu_spec (Other a) = Other a"

text \<open>
  The spec's ``same shape/keys/order'': what is left of a value when the devices of the
  tensor-like leaves that \<^verbatim>\<open>_to_cpu\<close> reaches (through lists, tuples and dicts) and the
  classes of the containers it goes through are forgotten. Then the devices of those
  leaves, from left to right, and whether every container on the way to them is of the
  built-in class.
\<close>

datatype shape =
    TensorLeaf nat
  | ElementLeaf nat
  | ListOf "shape list"
  | TupleOf "shape list"
  | DictOf "(atom \<times> shape) list"
  | MappingLeaf string "(atom \<times> pyval) list"
  | OtherLeaf atom

fun shape_of :: "pyval \<Rightarrow> shape" where
  "shape_of (Tensor t) = TensorLeaf (tensor_data t)"
| "shape_of (DataElement x) = ElementLeaf (element_data x)"
| "shape_of (PyList c ds) = ListOf (map shape_of ds)"
| "shape_of (PyTuple c ds) = TupleOf (map shape_of ds)"
| "shape_of (PyDict c kvs) = DictOf (map (\<lambda>(k, v). (k, shape_of v)) kvs)"
| "shape_of (PyMapping n kvs) = MappingLeaf n kvs"
| "shape_of (Other a) = OtherLeaf a"

fun devices_of :: "pyval \<Rightarrow> device list" where
  "devices_of (Tensor t) = [tensor_device t]"
| "devices_of (DataElement x) = [element_device x]"
| "devices_of (PyList c ds) = concat (map devices_of ds)"
| "devices_of (PyTuple c ds) = concat (map devices_of ds)"
| "devices_of (PyDict c kvs) = concat (map (\<lambda>(k, v). devices_of v) kvs)"
| "devices_of (PyMapping n kvs) = []"
| "devices_of (Other a) = []"

fun classes_of :: "pyval \<Rightarrow> container list" where
  "classes_of (Tensor t) = []"
| "classes_of (DataElement x) = []"
| "classes_of (PyList c ds) = c # concat (map classes_of ds)"
| "classes_of (PyTuple c ds) = c # concat (map classes_of ds)"
| "classes_of (PyDict c kvs) = c # concat (map (\<lambda>(k, v). classes_of v) kvs)"
| "classes_of (PyMapping n kvs) = []"
| "classes_of (Other a) = []"

section \<open>Concrete instances\<close>

text \<open>
  A world with an empty log, no files, a serializer and device transfers that never fail.
\<close>

definition world0 :: world where
  "world0 =
     \<lparr>logged = [], files = (\<lambda>path. None), dump_raises = (\<lambda>obj path. None),
      to_raises = (\<lambda>obj. None)\<rparr>"

text \<open>
  Subclasses of \<^verbatim>\<open>BaseMetric\<close>. One reports the results it was given,
  \<^verbatim>\<open>{'seen': results}\<close>. One raises in \<^verbatim>\<open>compute_metrics\<close>. One empties
  \<^verbatim>\<open>self.results\<close> in \<^verbatim>\<open>compute_metrics\<close> and then raises. One reports under a key
  that is no string, \<^verbatim>\<open>{1: results}\<close>.
\<close>

definition ToyMetric :: "string option \<Rightarrow> unit metric_class" where
  "ToyMetric dp =
     \<lparr>class_name = ''ToyMetric'', default_prefix = dp,
      compute_metrics = (\<lambda>self res w. (Inr [(StrV ''seen'', res)], self, w))\<rparr>"




definition toy_instance :: "pyval list \<Rightarrow> string option \<Rightarrow> metric" where
  "toy_instance R pfx =
     \<lparr>priv_dataset_meta = None, collect_device = ''cpu'', results = R, prefix = pfx\<rparr>"

definition toy_dump_instance :: "pyval list \<Rightarrow> dump_results" where
  "toy_dump_instance R =
     \<lparr>priv_dataset_meta = None, collect_device = ''cpu'', results = R, prefix = None,
      out_file_path = ''out.pkl''\<rparr>"

text \<open>The spec's nested value \<^verbatim>\<open>{"a": [T1, T2], "b": (T3,)}\<close>, with a leaf that is no tensor.\<close>

definition nested_example :: pyval where
  "nested_example =
     PyDict Plain
       [(StrV ''a'', PyList Plain [Tensor (TensorOn (GPU 0) 1), Tensor (TensorOn CPU 2)]),
        (StrV ''b'', PyTuple Plain [Tensor (TensorOn (GPU 1) 3)]),
        (StrV ''n'', Other (IntV 4))]"

text \<open>
  A named tuple \<^verbatim>\<open>Point(x=T)\<close> and a mapping that is no dict, each holding a tensor on a
  GPU.
\<close>

definition point_example :: pyval where
  "point_example = PyTuple (Subclass ''Point'') [Tensor (TensorOn (GPU 0) 1)]"

definition proxy_example :: pyval where
  "proxy_example = PyMapping ''MappingProxyType'' [(StrV ''a'', Tensor (TensorOn (GPU 0) 1))]"

section \<open>Lemmas\<close>

lemma in_order_map_Inr: "in_order (map Inr xs) = Inr xs"
  by (induction xs) simp_all

lemma in_order_Inr_D: "in_order rs = Inr xs \<Longrightarrow> rs = map Inr xs"
  by (induction rs arbitrary: xs rule: in_order.induct) (auto split: sum.splits)

lemma in_order_Inr_iff: "in_order rs = Inr xs \<longleftrightarrow> rs = map Inr xs"
  using in_order_Inr_D in_order_map_Inr by blast

lemma in_order_Inl: "in_order rs = Inl e \<Longrightarrow> Inl e \<in> set rs"
  by (induction rs rule: in_order.induct) (auto split: sum.splits)

text \<open>What a \<^verbatim>\<open>_to_cpu\<close> that returns has done to the elements of a list or tuple.\<close>

lemma to_cpu_elements:
  assumes "in_order (map (to_cpu w) ds) = Inr ds'"
  shows "list_all2 (\<lambda>d d'. to_cpu w d = Inr d') ds ds'"
proof -
  from assms have "map (to_cpu w) ds = map Inr ds'"
    by (simp add: in_order_Inr_iff)
  then show ?thesis
    by (induction ds arbitrary: ds') (auto simp: list_all2_Cons1)
qed

lemma to_cpu_items:
  assumes "in_order (map (\<lambda>(k, v). case to_cpu w v of Inl e \<Rightarrow> Inl e
                                   | Inr v' \<Rightarrow> Inr (k, v')) kvs) = Inr kvs'"
  shows "list_all2 (\<lambda>(k, v) (k', v'). k' = k \<and> to_cpu w v = Inr v') kvs kvs'"
proof -
  from assms have "map (\<lambda>(k, v). case to_cpu w v of Inl e \<Rightarrow> Inl e
                         | Inr v' \<Rightarrow> Inr (k, v')) kvs = map Inr kvs'"
    by (simp add: in_order_Inr_iff)
  then show ?thesis
    by (induction kvs arbitrary: kvs') (auto simp: list_all2_Cons1 split: sum.splits)
qed

lemma shape_of_to_cpu: "to_cpu w v = Inr v' \<Longrightarrow> shape_of v' = shape_of v"
proof (induction v arbitrary: v')
  case (Tensor t)
  then show ?case by (auto simp: tensor_to_def split: option.splits)
next
  case (DataElement x)
  then show ?case by (auto simp: data_element_to_def split: option.splits)
next
  case (PyList c ds)
  then obtain ds' where v': "v' = PyList Plain ds'"
    and ds': "in_order (map (to_cpu w) ds) = Inr ds'"
    by (auto split: sum.splits)
  have "list_all2 (\<lambda>d d'. to_cpu w d = Inr d') ds ds'"
    using ds' by (rule to_cpu_elements)
  then have "map shape_of ds' = map shape_of ds"
    using PyList.IH by (induction ds ds' rule: list_all2_induct) auto
  then show ?case by (simp add: v')
next
  case (PyTuple c ds)
  then obtain ds' where v': "v' = PyTuple Plain ds'"
    and ds': "in_order (map (to_cpu w) ds) = Inr ds'"
    by (auto split: sum.splits)
  have "list_all2 (\<lambda>d d'. to_cpu w d = Inr d') ds ds'"
    using ds' by (rule to_cpu_elements)
  then have "map shape_of ds' = map shape_of ds"
    using PyTuple.IH by (induction ds ds' rule: list_all2_induct) auto
  then show ?case by (simp add: v')
next
  case (PyDict c kvs)
  then obtain kvs' where v': "v' = PyDict Plain kvs'"
    and kvs': "in_order (map (\<lambda>(k, v). case to_cpu w v of Inl e \<Rightarrow> Inl e
                                | Inr v' \<Rightarrow> Inr (k, v')) kvs) = Inr kvs'"
    by (auto split: sum.splits)
  have "list_all2 (\<lambda>(k, v) (k', v'). k' = k \<and> to_cpu w v = Inr v') kvs kvs'"
    using kvs' by (rule to_cpu_items)
  then have "map (\<lambda>(k, v). (k, shape_of v)) kvs' = map (\<lambda>(k, v). (k, shape_of v)) kvs"
    using PyDict.IH by (induction kvs kvs' rule: list_all2_induct) fastforce+
  then show ?case by (simp add: v')
next
  case (PyMapping n kvs)
  then show ?case by auto
next
  case (Other a)
  then show ?case by auto
qed

lemma concat_map_related:
  assumes "list_all2 (\<lambda>d d'. f d' = map g (f d)) ds ds'"
  shows "concat (map f ds') = map g (concat (map f ds))"
  using assms by (induction ds ds' rule: list_all2_induct) auto

lemma devices_of_to_cpu:
  "to_cpu w v = Inr v' \<Longrightarrow> devices_of v' = map (\<lambda>_. CPU) (devices_of v)"
proof (induction v arbitrary: v')
  case (Tensor t)
  then show ?case by (auto simp: tensor_to_def split: option.splits)
next
  case (DataElement x)
  then show ?case by (auto simp: data_element_to_def split: option.splits)
next
  case (PyList c ds)
  then obtain ds' where v': "v' = PyList Plain ds'"
    and ds': "in_order (map (to_cpu w) ds) = Inr ds'"
    by (auto split: sum.splits)
  have "list_all2 (\<lambda>d d'. to_cpu w d = Inr d') ds ds'"
    using ds' by (rule to_cpu_elements)
  then have "list_all2 (\<lambda>d d'. devices_of d' = map (\<lambda>_. CPU) (devices_of d)) ds ds'"
    using PyList.IH by (induction ds ds' rule: list_all2_induct) auto
  then show ?case by (simp add: v' concat_map_related)
next
  case (PyTuple c ds)
  then obtain ds' where v': "v' = PyTuple Plain ds'"
    and ds': "in_order (map (to_cpu w) ds) = Inr ds'"
    by (auto split: sum.splits)
  have "list_all2 (\<lambda>d d'. to_cpu w d = Inr d') ds ds'"
    using ds' by (rule to_cpu_elements)
  then have "list_all2 (\<lambda>d d'. devices_of d' = map (\<lambda>_. CPU) (devices_of d)) ds ds'"
    using PyTuple.IH by (induction ds ds' rule: list_all2_induct) auto
  then show ?case by (simp add: v' concat_map_related)
next
  case (PyDict c kvs)
  then obtain kvs' where v': "v' = PyDict Plain kvs'"
    and kvs': "in_order (map (\<lambda>(k, v). case to_cpu w v of Inl e \<Rightarrow> Inl e
                                | Inr v' \<Rightarrow> Inr (k, v')) kvs) = Inr kvs'"
    by (auto split: sum.splits)
  have "list_all2 (\<lambda>(k, v) (k', v'). k' = k \<and> to_cpu w v = Inr v') kvs kvs'"
    using kvs' by (rule to_cpu_items)
  then have "list_all2 (\<lambda>kv kv'. (\<lambda>(k, v). devices_of v) kv'
                 = map (\<lambda>_. CPU) ((\<lambda>(k, v). devices_of v) kv)) kvs kvs'"
    using PyDict.IH by (induction kvs kvs' rule: list_all2_induct) fastforce+
  then show ?case by (simp add: v' concat_map_related)
next
  case (PyMapping n kvs)
  then show ?case by auto
next
  case (Other a)
  then show ?case by auto
qed

lemma classes_of_to_cpu:
  "to_cpu w v = Inr v' \<Longrightarrow> classes_of v' = map (\<lambda>_. Plain) (classes_of v)"
proof (induction v arbitrary: v')
  case (Tensor t)
  then show ?case by (auto split: sum.splits)
next
  case (DataElement x)
  then show ?case by (auto split: sum.splits)
next
  case (PyList c ds)
  then obtain ds' where v': "v' = PyList Plain ds'"
    and ds': "in_order (map (to_cpu w) ds) = Inr ds'"
    by (auto split: sum.splits)
  have "list_all2 (\<lambda>d d'. to_cpu w d = Inr d') ds ds'"
    using ds' by (rule to_cpu_elements)
  then have "list_all2 (\<lambda>d d'. classes_of d' = map (\<lambda>_. Plain) (classes_of d)) ds ds'"
    using PyList.IH by (induction ds ds' rule: list_all2_induct) auto
  then show ?case by (simp add: v' concat_map_related)
next
  case (PyTuple c ds)
  then obtain ds' where v': "v' = PyTuple Plain ds'"
    and ds': "in_order (map (to_cpu w) ds) = Inr ds'"
    by (auto split: sum.splits)
  have "list_all2 (\<lambda>d d'. to_cpu w d = Inr d') ds ds'"
    using ds' by (rule to_cpu_elements)
  then have "list_all2 (\<lambda>d d'. classes_of d' = map (\<lambda>_. Plain) (classes_of d)) ds ds'"
    using PyTuple.IH by (induction ds ds' rule: list_all2_induct) auto
  then show ?case by (simp add: v' concat_map_related)
next
  case (PyDict c kvs)
  then obtain kvs' where v': "v' = PyDict Plain kvs'"
    and kvs': "in_order (map (\<lambda>(k, v). case to_cpu w v of Inl e \<Rightarrow> Inl e
                                | Inr v' \<Rightarrow> Inr (k, v')) kvs) = Inr kvs'"
    by (auto split: sum.splits)
  have "list_all2 (\<lambda>(k, v) (k', v'). k' = k \<and> to_cpu w v = Inr v') kvs kvs'"
    using kvs' by (rule to_cpu_items)
  then have "list_all2 (\<lambda>kv kv'. (\<lambda>(k, v). classes_of v) kv'
                 = map (\<lambda>_. Plain) ((\<lambda>(k, v). classes_of v) kv)) kvs kvs'"
    using PyDict.IH by (induction kvs kvs' rule: list_all2_induct) fastforce+
  then show ?case by (simp add: v' concat_map_related)
next
  case (PyMapping n kvs)
  then show ?case by auto
next
  case (Other a)
  then show ?case by auto
qed

text \<open>Where no transfer raises, \<^verbatim>\<open>_to_cpu\<close> returns.\<close>

lemma in_order_all_Inr:
  assumes "\<And>x. x \<in> set xs \<Longrightarrow> \<exists>y. f x = Inr y"
  shows "\<exists>ys. in_order (map f xs) = Inr ys"
  using assms
proof (induction xs)
  case Nil
  then show ?case by simp
next
  case (Cons x xs)
  then obtain y ys where "f x = Inr y" "in_order (map f xs) = Inr ys"
    by (meson list.set_intros)
  then show ?case by simp
qed

lemma to_cpu_returns:
  assumes "to_raises w = (\<lambda>obj. None)"
  shows "\<exists>v'. to_cpu w v = Inr v'"
proof (induction v)
  case (Tensor t)
  then show ?case by (simp add: tensor_to_def assms)
next
  case (DataElement x)
  then show ?case by (simp add: data_element_to_def assms)
next
  case (PyList c ds)
  then obtain ds' where "in_order (map (to_cpu w) ds) = Inr ds'"
    using in_order_all_Inr [of ds "to_cpu w"] by blast
  then show ?case by simp
next
  case (PyTuple c ds)
  then obtain ds' where "in_order (map (to_cpu w) ds) = Inr ds'"
    using in_order_all_Inr [of ds "to_cpu w"] by blast
  then show ?case by simp
next
  case (PyDict c kvs)
  have "\<exists>y. (\<lambda>(k, v). case to_cpu w v of Inl e \<Rightarrow> Inl e | Inr v' \<Rightarrow> Inr (k, v')) kv = Inr y"
    if mem: "kv \<in> set kvs" for kv
  proof -
    obtain k v where kv: "kv = (k, v)" by (cases kv)
    then have "v \<in> Basic_BNFs.snds kv" by simp
    then obtain v' where "to_cpu w v = Inr v'"
      using PyDict.IH mem by blast
    then show ?thesis by (simp add: kv)
  qed
  then obtain kvs' where
    "in_order (map (\<lambda>(k, v). case to_cpu w v of Inl e \<Rightarrow> Inl e
                     | Inr v' \<Rightarrow> Inr (k, v')) kvs) = Inr kvs'"
    using in_order_all_Inr by blast
  then show ?case by simp
next
  case (PyMapping n kvs)
  then show ?case by simp
next
  case (Other a)
  then show ?case by simp
qed

lemma prefix_keys_strings:
  "prefix_keys p (map (\<lambda>(k, v). (StrV k, v)) m)
     = Inr (map (\<lambda>(k, v). (StrV (p @ ''/'' @ k), v)) m)"
  by (induction m) (auto simp: prefix_keys_def slash_join_def)




lemma broadcast_main:
  "is_main_process d \<Longrightarrow> broadcast_source d = Inr src \<Longrightarrow> broadcast_object_list d xs = Inr xs"
  by (simp add: broadcast_object_list_def)

lemma broadcast_single_worker: "broadcast_object_list single_worker xs = Inr xs"
  by (simp add: broadcast_object_list_def single_worker_def)

lemma single_worker_simps:
  "is_main_process single_worker"
  "collect_results single_worker R sz dev = Inr (PyList Plain (py_slice_upto R sz))"
  by (simp_all add: single_worker_def)

text \<open>
  The call of the designated worker, step by step, when every step returns: the relocated
  results go to \<^verbatim>\<open>compute_metrics\<close>, the keys are prefixed where the prefix is true, the
  broadcast keeps the list, the accumulator is cleared.
\<close>

lemma evaluate_main_returns:
  assumes "is_main_process d"
    and "collect_results d (results self) sz (collect_device self) = Inr res"
    and "to_cpu (if results self = [] then print_log (empty_results_warning cls) WARNING w
                 else w) res = Inr res'"
    and "compute_metrics cls self res'
           (if results self = [] then print_log (empty_results_warning cls) WARNING w else w)
         = (Inr raw, self1, w2)"
    and "(if truthy (prefix self1) then prefix_keys (the (prefix self1)) raw else Inr raw)
         = Inr named"
    and "broadcast_source d = Inr src"
  shows "evaluate d cls sz self w = (Inr (Some named), self1\<lparr>results := []\<rparr>, w2)"
proof -
  have b: "broadcast_object_list d [Some named] = Inr [Some named]"
    using assms(1,6) by (rule broadcast_main)
  show ?thesis
  proof (cases "results self = []")
    case True
    with assms b show ?thesis
      by (simp add: evaluate_def)
  next
    case False
    with assms b show ?thesis
      by (simp add: evaluate_def)
  qed
qed





lemma endswith_iff: "endswith s suf \<longleftrightarrow> (\<exists>pre. s = pre @ suf)"
proof
  assume "endswith s suf"
  then have "s = take (length s - length suf) s @ suf"
    by (metis append_take_drop_id endswith_def)
  then show "\<exists>pre. s = pre @ suf" ..
next
  assume "\<exists>pre. s = pre @ suf"
  then show "endswith s suf" by (auto simp: endswith_def)
qed

lemma endswith_any_pkl:
  "endswith_any path [''.pkl'', ''.pickle''] \<longleftrightarrow>
     (\<exists>stem. path = stem @ ''.pkl'') \<or> (\<exists>stem. path = stem @ ''.pickle'')"
  by (simp add: endswith_iff)

section \<open>The claims\<close>

subsection \<open>C1: a single-worker \<^verbatim>\<open>evaluate\<close>\<close>

text \<open>
  Claim C1, as the code has it. In a single-worker run, for every accumulator \<open>R\<close> and
  every size: when the device relocation returns on \<^verbatim>\<open>R[:size]\<close> and
  \<^verbatim>\<open>compute_metrics\<close> returns a mapping with string keys on the relocated results,
  \<^verbatim>\<open>evaluate(size)\<close> returns that mapping with every key \<open>k\<close> replaced by
  \<^verbatim>\<open>prefix + "/" + k\<close> when the prefix of the instance is a non-empty string, and
  with the keys unchanged when the prefix is \<^verbatim>\<open>None\<close> or empty. The prefix is the
  one the instance has when \<^verbatim>\<open>compute_metrics\<close> has returned. The accumulator is
  empty afterwards.
\<close>

theorem evaluate_single_worker:
  fixes cls :: "'a metric_class" and self :: "'a metric_scheme" and w :: world
  defines "w1 \<equiv> (if results self = [] then print_log (empty_results_warning cls) WARNING w
                   else w)"
  assumes "to_cpu w1 (PyList Plain (py_slice_upto (results self) sz)) = Inr res'"
    and "compute_metrics cls self res' w1 = (Inr (map (\<lambda>(k, v). (StrV k, v)) m), self1, w2)"
  shows "evaluate single_worker cls sz self w =
           (Inr (Some (case prefix self1 of
                         None \<Rightarrow> map (\<lambda>(k, v). (StrV k, v)) m
                       | Some p \<Rightarrow>
                           if p = [] then map (\<lambda>(k, v). (StrV k, v)) m
                           else map (\<lambda>(k, v). (StrV (p @ ''/'' @ k), v)) m)),
            self1\<lparr>results := []\<rparr>, w2)"
proof -
  have named: "(if truthy (prefix self1)
                then prefix_keys (the (prefix self1)) (map (\<lambda>(k, v). (StrV k, v)) m)
                else Inr (map (\<lambda>(k, v). (StrV k, v)) m))
      = Inr (case prefix self1 of
               None \<Rightarrow> map (\<lambda>(k, v). (StrV k, v)) m
             | Some p \<Rightarrow>
                 if p = [] then map (\<lambda>(k, v). (StrV k, v)) m
                 else map (\<lambda>(k, v). (StrV (p @ ''/'' @ k), v)) m)"
    by (cases "prefix self1") (simp_all add: prefix_keys_strings)
  show ?thesis
    using evaluate_main_returns [OF single_worker_simps(1) single_worker_simps(2)
        assms(2) [unfolded w1_def] assms(3) [unfolded w1_def] named]
    by (simp add: single_worker_def)
qed

text \<open>
  The claim as the spec words it fails twice. \<^verbatim>\<open>compute_metrics\<close> is given the relocated
  results, not \<^verbatim>\<open>R[:size]\<close>: a metric that reports what it was given reports a tensor on
  the CPU where the accumulator holds one on a GPU. And a prefix that is the empty string
  (the prefix of an instance whose class has the empty string as \<^verbatim>\<open>default_prefix\<close>) is
  set, yet no key gets \<^verbatim>\<open>"/"\<close> in front.
\<close>

theorem evaluate_single_worker_counterexample:
  "fst (evaluate single_worker (ToyMetric None) 1
          (toy_instance [Tensor (TensorOn (GPU 0) 7)] (Some ''toy'')) world0)
     \<noteq> evaluate_spec (ToyMetric None) 1
          (toy_instance [Tensor (TensorOn (GPU 0) 7)] (Some ''toy'')) world0
   \<and> fst (evaluate single_worker (ToyMetric None) 1
          (toy_instance [Other (IntV 5)] (Some '''')) world0)
     \<noteq> evaluate_spec (ToyMetric None) 1
          (toy_instance [Other (IntV 5)] (Some '''')) world0"
  by (simp add: evaluate_def evaluate_spec_def broadcast_single_worker slash_join_def
      prefix_keys_def single_worker_simps ToyMetric_def toy_instance_def world0_def
      py_slice_upto_def tensor_to_def)

theorem evaluate_single_worker_witness:
  "evaluate single_worker (ToyMetric None) 1
     (toy_instance [Tensor (TensorOn (GPU 0) 7), Other (IntV 5)] (Some ''toy'')) world0 =
     (Inr (Some [(StrV ''toy/seen'', PyList Plain [Tensor (TensorOn CPU 7)])]),
      toy_instance [] (Some ''toy''), world0)"
proof -
  have r: "to_cpu
      (if results (toy_instance [Tensor (TensorOn (GPU 0) 7), Other (IntV 5)] (Some ''toy'')) = []
       then print_log (empty_results_warning (ToyMetric None)) WARNING world0 else world0)
      (PyList Plain (py_slice_upto
         (results (toy_instance [Tensor (TensorOn (GPU 0) 7), Other (IntV 5)] (Some ''toy''))) 1))
      = Inr (PyList Plain [Tensor (TensorOn CPU 7)])"
    by (simp add: toy_instance_def py_slice_upto_def tensor_to_def world0_def)
  have c: "compute_metrics (ToyMetric None)
      (toy_instance [Tensor (TensorOn (GPU 0) 7), Other (IntV 5)] (Some ''toy''))
      (PyList Plain [Tensor (TensorOn CPU 7)])
      (if results (toy_instance [Tensor (TensorOn (GPU 0) 7), Other (IntV 5)] (Some ''toy'')) = []
       then print_log (empty_results_warning (ToyMetric None)) WARNING world0 else world0)
      = (Inr (map (\<lambda>(k, v). (StrV k, v)) [(''seen'', PyList Plain [Tensor (TensorOn CPU 7)])]),
         toy_instance [Tensor (TensorOn (GPU 0) 7), Other (IntV 5)] (Some ''toy''), world0)"
    by (simp add: ToyMetric_def toy_instance_def)
  show ?thesis
    using evaluate_single_worker [OF r c] by (simp add: toy_instance_def)
qed

subsection \<open>C2: the accumulator after \<^verbatim>\<open>evaluate\<close>\<close>

text \<open>
  Claim C2. For every instance, whatever its accumulator holds after the \<^verbatim>\<open>process\<close>
  calls so far, and in every run: when \<^verbatim>\<open>evaluate(size)\<close> returns, the accumulator is
  empty afterwards, whether the warning about an empty accumulator was logged or not.
\<close>

theorem evaluate_clears_results:
  assumes "evaluate d cls sz self w = (Inr m, self', w')"
  shows "results self' = []"
  using assms
  by (auto simp: evaluate_def Let_def split: sum.splits prod.splits if_splits list.splits)

theorem evaluate_clears_results_witness:
  "evaluate single_worker (ToyMetric None) 1 (toy_instance [Other (IntV 5)] None) world0 =
     (Inr (Some [(StrV ''seen'', PyList Plain [Other (IntV 5)])]), toy_instance [] None, world0)
   \<and> evaluate single_worker (ToyMetric None) 1 (toy_instance [] None) world0 =
     (Inr (Some [(StrV ''seen'', PyList Plain [])]), toy_instance [] None,
      print_log (empty_results_warning (ToyMetric None)) WARNING world0)
   \<and> results (toy_instance [] None) = []"
proof -
  have run: "evaluate single_worker (ToyMetric None) 1 (toy_instance [Other (IntV 5)] None) world0 =
     (Inr (Some [(StrV ''seen'', PyList Plain [Other (IntV 5)])]), toy_instance [] None, world0)"
    by (simp add: evaluate_def broadcast_single_worker single_worker_simps ToyMetric_def
        toy_instance_def py_slice_upto_def)
  have warned: "evaluate single_worker (ToyMetric None) 1 (toy_instance [] None) world0 =
     (Inr (Some [(StrV ''seen'', PyList Plain [])]), toy_instance [] None,
      print_log (empty_results_warning (ToyMetric None)) WARNING world0)"
    by (simp add: evaluate_def broadcast_single_worker single_worker_simps ToyMetric_def
        toy_instance_def py_slice_upto_def)
  show ?thesis
    using run warned evaluate_clears_results [OF run] evaluate_clears_results [OF warned]
    by simp
qed

subsection \<open>C3: every worker returns the same metrics\<close>



subsection \<open>C4: \<^verbatim>\<open>_to_cpu\<close>\<close>

text \<open>
  Claim C4, as the code has it. Let \<^verbatim>\<open>_to_cpu\<close> return on a value (it does where no
  transfer raises). The result has the shape of the value: the same nesting, element order
  and keys, the contents of every tensor and data element, every other leaf as it was. Each
  tensor-like leaf reached through lists, tuples and dicts is on the CPU. Every list, tuple
  and dict on the way is of the built-in class: an instance of a subclass comes back as a
  plain list, tuple or dict, so the container type is the same only for plain containers.
  Every other value comes back unchanged, and so does a mapping that is no dict, with the
  values it holds.
\<close>

theorem to_cpu_structure_preserving:
  "(to_cpu w v = Inr v' \<longrightarrow>
      shape_of v' = shape_of v
      \<and> devices_of v' = map (\<lambda>_. CPU) (devices_of v)
      \<and> classes_of v' = map (\<lambda>_. Plain) (classes_of v))
   \<and> (to_raises w = (\<lambda>obj. None) \<longrightarrow> (\<exists>v'. to_cpu w v = Inr v'))
   \<and> to_cpu w (PyMapping n kvs) = Inr (PyMapping n kvs)
   \<and> to_cpu w (Other a) = Inr (Other a)"
  using shape_of_to_cpu [of w v v'] devices_of_to_cpu [of w v v']
    classes_of_to_cpu [of w v v'] to_cpu_returns [of w v]
  by simp

text \<open>
  The claim as the spec words it fails on values the code receives: a named tuple comes
  back as a plain tuple, not as the same container type; and a mapping that is no dict
  comes back with its tensor still on the GPU.
\<close>

theorem to_cpu_structure_preserving_counterexample:
  "to_cpu world0 point_example \<noteq> Inr (to_cpu_spec point_example)
   \<and> to_cpu world0 proxy_example \<noteq> Inr (to_cpu_spec proxy_example)"
  by (simp add: point_example_def proxy_example_def world0_def tensor_to_def)

theorem to_cpu_structure_preserving_witness:
  "to_cpu world0 nested_example =
     Inr (PyDict Plain
       [(StrV ''a'', PyList Plain [Tensor (TensorOn CPU 1), Tensor (TensorOn CPU 2)]),
        (StrV ''b'', PyTuple Plain [Tensor (TensorOn CPU 3)]),
        (StrV ''n'', Other (IntV 4))])
   \<and> to_cpu world0 point_example = Inr (PyTuple Plain [Tensor (TensorOn CPU 1)])
   \<and> shape_of (PyTuple Plain [Tensor (TensorOn CPU 1)]) = shape_of point_example
   \<and> devices_of (PyTuple Plain [Tensor (TensorOn CPU 1)]) = [CPU]
   \<and> classes_of (PyTuple Plain [Tensor (TensorOn CPU 1)]) = [Plain]
   \<and> to_cpu world0 proxy_example = Inr proxy_example"
proof -
  have point: "to_cpu world0 point_example = Inr (PyTuple Plain [Tensor (TensorOn CPU 1)])"
    by (simp add: point_example_def world0_def tensor_to_def)
  have nested: "to_cpu world0 nested_example =
     Inr (PyDict Plain
       [(StrV ''a'', PyList Plain [Tensor (TensorOn CPU 1), Tensor (TensorOn CPU 2)]),
        (StrV ''b'', PyTuple Plain [Tensor (TensorOn CPU 3)]),
        (StrV ''n'', Other (IntV 4))])"
    by (simp add: nested_example_def world0_def tensor_to_def)
  show ?thesis
    using point nested
      to_cpu_structure_preserving [of world0 point_example
        "PyTuple Plain [Tensor (TensorOn CPU 1)]" "''MappingProxyType''"
        "[(StrV ''a'', Tensor (TensorOn (GPU 0) 1))]"]
    by (simp add: point_example_def proxy_example_def)
qed

subsection \<open>C5: the output path of \<^verbatim>\<open>DumpResults\<close>\<close>

text \<open>
  Claim C5. Constructing \<^verbatim>\<open>DumpResults\<close> raises \<^verbatim>\<open>ValueError\<close> if and only if the path
  ends in neither \<^verbatim>\<open>.pkl\<close> nor \<^verbatim>\<open>.pickle\<close>; otherwise it returns the instance with the
  path stored. \<^verbatim>\<open>out.json\<close> fails, \<^verbatim>\<open>out.pkl\<close> and \<^verbatim>\<open>out.pickle\<close> succeed. Either way
  the constructor has done nothing else but log the warning of \<^verbatim>\<open>BaseMetric.__init__\<close>
  about the unset prefix.
\<close>

theorem DumpResults_init_validation:
  "fst (DumpResults_init path dev w) =
     (if (\<exists>stem. path = stem @ ''.pkl'') \<or> (\<exists>stem. path = stem @ ''.pickle'')
      then Inr \<lparr>priv_dataset_meta = None, collect_device = dev, results = [], prefix = None,
                 out_file_path = path\<rparr>
      else Inl (ValueError ''The output file must be a pkl file.''))
   \<and> snd (DumpResults_init path dev w) = print_log (prefix_warning DumpResults) WARNING w
   \<and> fst (DumpResults_init ''out.json'' dev w)
       = Inl (ValueError ''The output file must be a pkl file.'')
   \<and> fst (DumpResults_init ''out.pkl'' dev w)
       = Inr \<lparr>priv_dataset_meta = None, collect_device = dev, results = [], prefix = None,
               out_file_path = ''out.pkl''\<rparr>
   \<and> fst (DumpResults_init ''out.pickle'' dev w)
       = Inr \<lparr>priv_dataset_meta = None, collect_device = dev, results = [], prefix = None,
               out_file_path = ''out.pickle''\<rparr>"
proof -
  have init: "BaseMetric_init DumpResults dev None w =
      (\<lparr>priv_dataset_meta = None, collect_device = dev, results = [], prefix = None\<rparr>,
       print_log (prefix_warning DumpResults) WARNING w)"
    by (simp add: BaseMetric_init_def DumpResults_def py_or_def)
  have general: "fst (DumpResults_init path dev w) =
     (if endswith_any path [''.pkl'', ''.pickle'']
      then Inr \<lparr>priv_dataset_meta = None, collect_device = dev, results = [], prefix = None,
                 out_file_path = path\<rparr>
      else Inl (ValueError ''The output file must be a pkl file.''))" for path
    by (simp add: DumpResults_init_def init metric.extend_def)
  have world: "snd (DumpResults_init path dev w) = print_log (prefix_warning DumpResults) WARNING w"
    by (simp add: DumpResults_init_def init)
  have json: "\<not> endswith_any ''out.json'' [''.pkl'', ''.pickle'']"
    by (simp add: endswith_def)
  have pkl: "endswith_any ''out.pkl'' [''.pkl'', ''.pickle'']"
    by (simp add: endswith_def)
  have pickle: "endswith_any ''out.pickle'' [''.pkl'', ''.pickle'']"
    by (simp add: endswith_def)
  show ?thesis
    using general [of path] general [of "''out.json''"] general [of "''out.pkl''"]
      general [of "''out.pickle''"] json pkl pickle world
    by (simp only: endswith_any_pkl [symmetric] if_True if_False simp_thms)
qed

theorem DumpResults_init_validation_witness:
  "fst (DumpResults_init ''results/epoch_3.pickle'' ''gpu'' world0)
     = Inr \<lparr>priv_dataset_meta = None, collect_device = ''gpu'', results = [], prefix = None,
             out_file_path = ''results/epoch_3.pickle''\<rparr>
   \<and> fst (DumpResults_init ''out.pkl.bak'' ''cpu'' world0)
     = Inl (ValueError ''The output file must be a pkl file.'')"
proof -
  have yes: "\<exists>stem. ''results/epoch_3.pickle'' = stem @ ''.pickle''"
    by (rule exI [of _ "''results/epoch_3''"]) simp
  have "\<not> endswith_any ''out.pkl.bak'' [''.pkl'', ''.pickle'']"
    by (simp add: endswith_def)
  then have no: "\<not> ((\<exists>stem. ''out.pkl.bak'' = stem @ ''.pkl'')
                    \<or> (\<exists>stem. ''out.pkl.bak'' = stem @ ''.pickle''))"
    unfolding endswith_any_pkl .
  show ?thesis
    using DumpResults_init_validation [of "''results/epoch_3.pickle''" "''gpu''" world0]
      DumpResults_init_validation [of "''out.pkl.bak''" "''cpu''" world0] yes no
    by simp
qed

subsection \<open>C6: \<^verbatim>\<open>DumpResults.compute_metrics\<close>\<close>

text \<open>
  Claim C6. For every list of collected results, when the serializer does not fail on
  it, \<^verbatim>\<open>DumpResults.compute_metrics\<close> leaves the whole list in the file at the configured
  path, logs where it was saved, touches no other file and not the instance, and returns
  the empty mapping.
\<close>

theorem DumpResults_compute_metrics_dumps:
  assumes "dump_raises w (PyList c rs) (out_file_path self) = None"
  shows "DumpResults_compute_metrics self (PyList c rs) w =
           (Inr [], self,
            w\<lparr>files := (files w)(out_file_path self \<mapsto> PyList c rs),
              logged := logged w @
                [(INFO, ''Results has been saved to '' @ out_file_path self @ ''.'')]\<rparr>)
       \<and> files (snd (snd (DumpResults_compute_metrics self (PyList c rs) w)))
           (out_file_path self)
           = Some (PyList c rs)"
  using assms by (simp add: DumpResults_compute_metrics_def dump_def print_log_def)

theorem DumpResults_compute_metrics_dumps_witness:
  "DumpResults_compute_metrics (toy_dump_instance [])
     (PyList Plain [Other (IntV 5), Other (IntV 6)]) world0 =
     (Inr [], toy_dump_instance [],
      world0\<lparr>files := (files world0)
                 (''out.pkl'' \<mapsto> PyList Plain [Other (IntV 5), Other (IntV 6)]),
        logged := [(INFO, ''Results has been saved to out.pkl.'')]\<rparr>)"
  using DumpResults_compute_metrics_dumps
    [of world0 Plain "[Other (IntV 5), Other (IntV 6)]" "toy_dump_instance []"]
  by (simp add: world0_def toy_dump_instance_def)

subsection \<open>C7: the prefix\<close>

text \<open>
  Claim C7, as the code has it. The prefix is resolved once, at construction: it is the
  constructor argument when that is a non-empty string, and the \<^verbatim>\<open>default_prefix\<close> of the
  class otherwise (also when the argument is the empty string). When the resolved prefix
  is \<^verbatim>\<open>None\<close>, the constructor logs a warning and does nothing else, and
  \<^verbatim>\<open>evaluate\<close> on the designated worker of any run, whatever the accumulator of the
  instance holds by then, returns the keys of \<^verbatim>\<open>compute_metrics\<close> as they are (where
  the steps of the call return and \<^verbatim>\<open>compute_metrics\<close> has not assigned a prefix).
\<close>

theorem prefix_resolved_at_construction:
  fixes cls :: "unit metric_class"
  shows "prefix (fst (BaseMetric_init cls dev pfx w)) =
           (case pfx of
              None \<Rightarrow> default_prefix cls
            | Some p \<Rightarrow> if p = [] then default_prefix cls else Some p)
       \<and> snd (BaseMetric_init cls dev pfx w) =
           (if prefix (fst (BaseMetric_init cls dev pfx w)) = None
            then print_log (prefix_warning cls) WARNING w else w)
       \<and> (prefix (fst (BaseMetric_init cls dev pfx w)) = None
            \<and> is_main_process d
            \<and> collect_results d R sz dev = Inr res
            \<and> to_cpu (if R = [] then print_log (empty_results_warning cls) WARNING w' else w')
                 res = Inr res'
            \<and> compute_metrics cls ((fst (BaseMetric_init cls dev pfx w))\<lparr>results := R\<rparr>) res'
                 (if R = [] then print_log (empty_results_warning cls) WARNING w' else w')
               = (Inr m, self1, w2)
            \<and> prefix self1 = None
            \<and> broadcast_source d = Inr src
          \<longrightarrow> fst (evaluate d cls sz
                     ((fst (BaseMetric_init cls dev pfx w))\<lparr>results := R\<rparr>) w')
               = Inr (Some m))"
proof (intro conjI impI)
  show "prefix (fst (BaseMetric_init cls dev pfx w)) =
           (case pfx of
              None \<Rightarrow> default_prefix cls
            | Some p \<Rightarrow> if p = [] then default_prefix cls else Some p)"
    by (cases pfx) (simp_all add: BaseMetric_init_def py_or_def Let_def)
  show "snd (BaseMetric_init cls dev pfx w) =
           (if prefix (fst (BaseMetric_init cls dev pfx w)) = None
            then print_log (prefix_warning cls) WARNING w else w)"
    by (cases "py_or pfx (default_prefix cls)") (simp_all add: BaseMetric_init_def Let_def)
next
  let ?self = "(fst (BaseMetric_init cls dev pfx w))\<lparr>results := R\<rparr>"
  let ?w1 = "if R = [] then print_log (empty_results_warning cls) WARNING w' else w'"
  assume a: "prefix (fst (BaseMetric_init cls dev pfx w)) = None
            \<and> is_main_process d
            \<and> collect_results d R sz dev = Inr res
            \<and> to_cpu ?w1 res = Inr res'
            \<and> compute_metrics cls ?self res' ?w1 = (Inr m, self1, w2)
            \<and> prefix self1 = None
            \<and> broadcast_source d = Inr src"
  have dev: "collect_device ?self = dev"
    by (simp add: BaseMetric_init_def Let_def)
  have "evaluate d cls sz ?self w' = (Inr (Some m), self1\<lparr>results := []\<rparr>, w2)"
    by (rule evaluate_main_returns [where res = res and res' = res' and raw = m and src = src])
       (use a dev in simp_all)
  then show "fst (evaluate d cls sz ?self w') = Inr (Some m)"
    by simp
qed

text \<open>
  The claim as the spec words it fails for the empty string: it is an argument that is
  given, and the resolved prefix is the default of the class.
\<close>

theorem prefix_resolved_at_construction_counterexample:
  "prefix (fst (BaseMetric_init (ToyMetric (Some ''toy'')) ''cpu'' (Some '''') world0))
     \<noteq> Some ''''"
  by (simp add: BaseMetric_init_def py_or_def ToyMetric_def)

theorem prefix_resolved_at_construction_witness:
  "prefix (fst (BaseMetric_init (ToyMetric None) ''cpu'' None world0)) = None
   \<and> prefix (fst (BaseMetric_init (ToyMetric (Some ''toy'')) ''cpu'' None world0)) = Some ''toy''
   \<and> prefix (fst (BaseMetric_init (ToyMetric (Some ''toy'')) ''cpu'' (Some ''mine'') world0))
       = Some ''mine''
   \<and> snd (BaseMetric_init (ToyMetric None) ''cpu'' None world0)
       = print_log (prefix_warning (ToyMetric None)) WARNING world0
   \<and> fst (evaluate single_worker (ToyMetric None) 1
            ((fst (BaseMetric_init (ToyMetric None) ''cpu'' None world0))
               \<lparr>results := [Other (IntV 5)]\<rparr>)
            world0)
       = Inr (Some [(StrV ''seen'', PyList Plain [Other (IntV 5)])])"
proof -
  let ?self = "(fst (BaseMetric_init (ToyMetric None) ''cpu'' None world0))
                 \<lparr>results := [Other (IntV 5)]\<rparr>"
  let ?w1 = "if [Other (IntV 5)] = []
             then print_log (empty_results_warning (ToyMetric None)) WARNING world0
             else world0"
  have p: "prefix (fst (BaseMetric_init (ToyMetric None) ''cpu'' None world0)) = None"
    by (simp add: BaseMetric_init_def py_or_def ToyMetric_def)
  have m: "is_main_process single_worker"
    by (rule single_worker_simps)
  have g: "collect_results single_worker [Other (IntV 5)] 1 ''cpu''
      = Inr (PyList Plain [Other (IntV 5)])"
    by (simp add: single_worker_simps py_slice_upto_def)
  have r: "to_cpu ?w1 (PyList Plain [Other (IntV 5)]) = Inr (PyList Plain [Other (IntV 5)])"
    by simp
  have c: "compute_metrics (ToyMetric None) ?self (PyList Plain [Other (IntV 5)]) ?w1
      = (Inr [(StrV ''seen'', PyList Plain [Other (IntV 5)])], ?self, world0)"
    by (simp add: ToyMetric_def)
  have p1: "prefix ?self = None"
    using p by simp
  have b: "broadcast_source single_worker = Inr (\<lambda>i. None)"
    by (simp add: single_worker_def)
  show ?thesis
    using p m g r c p1 b
      prefix_resolved_at_construction [of "ToyMetric None" "''cpu''" None world0
        single_worker "[Other (IntV 5)]" 1 "PyList Plain [Other (IntV 5)]" world0
        "PyList Plain [Other (IntV 5)]" "[(StrV ''seen'', PyList Plain [Other (IntV 5)])]"
        ?self world0 "\<lambda>i. None"]
      prefix_resolved_at_construction [of "ToyMetric (Some ''toy'')" "''cpu''" None world0]
      prefix_resolved_at_construction [of "ToyMetric (Some ''toy'')" "''cpu''" "Some ''mine''"
        world0]
    by (simp add: ToyMetric_def)
qed

subsection \<open>C8: an empty accumulator\<close>



subsection \<open>C9: the dataset meta information\<close>

text \<open>
  Claim C9, as the code has it. The dataset meta information of an instance is
  \<^verbatim>\<open>None\<close> at construction. It can be set after construction, any number of times:
  reading it back returns the mapping that was supplied last.
\<close>

theorem dataset_meta_set_get:
  "dataset_meta (fst (BaseMetric_init cls dev pfx w)) = None
   \<and> dataset_meta (set_dataset_meta m self) = Some m"
  by (simp add: dataset_meta_def set_dataset_meta_def BaseMetric_init_def Let_def)

text \<open>
  The claim as the spec words it fails: the setter has no guard, and a second set replaces
  what the first one supplied.
\<close>

theorem dataset_meta_set_get_counterexample:
  "dataset_meta
     (set_dataset_meta [(StrV ''classes'', Other (IntV 2))]
        (set_dataset_meta [(StrV ''classes'', Other (IntV 1))]
           (fst (BaseMetric_init (ToyMetric None) ''cpu'' None world0))))
   \<noteq> Some [(StrV ''classes'', Other (IntV 1))]"
  by (simp add: dataset_meta_def set_dataset_meta_def)

theorem dataset_meta_set_get_witness:
  "dataset_meta (fst (BaseMetric_init (ToyMetric None) ''cpu'' None world0)) = None
   \<and> dataset_meta
       (set_dataset_meta [(StrV ''classes'', Other (IntV 2))]
          (set_dataset_meta [(StrV ''classes'', Other (IntV 1))]
             (fst (BaseMetric_init (ToyMetric None) ''cpu'' None world0))))
     = Some [(StrV ''classes'', Other (IntV 2))]"
  using dataset_meta_set_get [of "ToyMetric None" "''cpu''" None world0
      "[(StrV ''classes'', Other (IntV 2))]"
      "set_dataset_meta [(StrV ''classes'', Other (IntV 1))]
         (fst (BaseMetric_init (ToyMetric None) ''cpu'' None world0))"]
  by simp

subsection \<open>C10: a round that fails\<close>




end
